theory Spec2Isabelle
  imports Main "HOL-Library.Word" "HOL-Library.List_Lexorder"
begin

section \<open>proto: the typed errors and the wire error\<close>

type_synonym RangeID = int

text \<open>
  Modelled from the spec: the declaration of the enum \<open>TransactionRestart\<close> is generated
  code that is not part of the sources at hand. The spec gives its three values as
  none, backoff and immediate; the source names the last two
  \<open>TransactionRestart_BACKOFF\<close> and \<open>TransactionRestart_IMMEDIATE\<close>.
\<close>

datatype TransactionRestart =
    TransactionRestart_NONE
  | TransactionRestart_BACKOFF
  | TransactionRestart_IMMEDIATE

text \<open>
  Modelled from the spec: a timestamp is a pair (wall-nanoseconds, logical-counter),
  strictly totally ordered; the order is the lexicographic one.
\<close>

record Timestamp =
  WallTime :: int
  Logical :: int

definition ts_less :: "Timestamp \<Rightarrow> Timestamp \<Rightarrow> bool" where
  "ts_less a b = (WallTime a < WallTime b \<or> (WallTime a = WallTime b \<and> Logical a < Logical b))"

definition ts_le :: "Timestamp \<Rightarrow> Timestamp \<Rightarrow> bool" where
  "ts_le a b = (ts_less a b \<or> (WallTime a = WallTime b \<and> Logical a = Logical b))"

text \<open>
  The error kinds of package proto that have an \<open>Error()\<close> method in errors.go, one
  constructor for each Go type. A field is kept where a method of the model reads it;
  transactions, replicas and descriptors that are only printed are left out.
\<close>

datatype GoError =
    NodeUnavailableError
  | NotLeaderError
  | LeaseRejectedError
  | RangeNotFoundError RangeID
  | RangeKeyMismatchError
  | TransactionAbortedError
  | TransactionPushError
  | TransactionRetryError
  | TransactionStatusError string
  | WriteIntentError
  | WriteTooOldError Timestamp Timestamp
  | ReadWithinUncertaintyIntervalError Timestamp Timestamp
  | OpRequiresTxnError
  | ConditionFailedError

text \<open>
  \<open>retry.Retryable\<close> is the interface with the one method \<open>CanRetry() bool\<close>. A type
  that does not declare the method does not implement the interface: the result is
  \<open>None\<close> then, and \<open>Some b\<close> when the method exists and returns \<open>b\<close>.
\<close>

fun CanRetry :: "GoError \<Rightarrow> bool option" where
  "CanRetry LeaseRejectedError = Some False"
| "CanRetry (RangeNotFoundError r) = Some True"
| "CanRetry RangeKeyMismatchError = Some True"
| "CanRetry _ = None"

text \<open>
  \<open>TransactionRestartError\<close> is the interface with the one method
  \<open>CanRestartTransaction() TransactionRestart\<close>; \<open>None\<close> again stands for a type
  without the method.
\<close>

fun CanRestartTransaction :: "GoError \<Rightarrow> TransactionRestart option" where
  "CanRestartTransaction TransactionAbortedError = Some TransactionRestart_BACKOFF"
| "CanRestartTransaction TransactionPushError = Some TransactionRestart_BACKOFF"
| "CanRestartTransaction TransactionRetryError = Some TransactionRestart_IMMEDIATE"
| "CanRestartTransaction (ReadWithinUncertaintyIntervalError t e) = Some TransactionRestart_IMMEDIATE"
| "CanRestartTransaction _ = None"

text \<open>The wire error \<open>Error\<close> and its own three methods.\<close>

record Error =
  Message :: string
  Retryable :: bool
  TransactionRestart :: TransactionRestart
  Detail :: "GoError option"

definition Error_Error :: "Error \<Rightarrow> string" where
  "Error_Error e = Message e"

definition Error_CanRetry :: "Error \<Rightarrow> bool" where
  "Error_CanRetry e = Retryable e"

definition Error_CanRestartTransaction :: "Error \<Rightarrow> TransactionRestart" where
  "Error_CanRestartTransaction e = TransactionRestart e"

text \<open>
  \<open>SetResponseGoError\<close> fills the wire error from a Go error. The two type assertions
  succeed exactly when the error's type has the method. The text of \<open>err.Error()\<close>
  (built with \<open>fmt.Sprintf\<close>) and \<open>ErrorDetail.SetValue\<close> (generated code) are taken
  as the parameters \<open>errString\<close> and \<open>SetValue\<close>.
\<close>

definition SetResponseGoError ::
  "(GoError \<Rightarrow> string) \<Rightarrow> (GoError \<Rightarrow> bool) \<Rightarrow> Error \<Rightarrow> GoError \<Rightarrow> Error" where
  "SetResponseGoError errString SetValue e err =
     (let e1 = e\<lparr>Message := errString err\<rparr>;
          e2 = (case CanRetry err of Some b \<Rightarrow> e1\<lparr>Retryable := b\<rparr> | None \<Rightarrow> e1);
          e3 = (case CanRestartTransaction err of
                  Some r \<Rightarrow> e2\<lparr>TransactionRestart := r\<rparr> | None \<Rightarrow> e2)
      in if SetValue err then e3\<lparr>Detail := Some err\<rparr> else e3)"

text \<open>The zero value of \<open>Error\<close>, as Go allocates it.\<close>

definition zeroError :: Error where
  "zeroError = \<lparr>Message = [], Retryable = False,
                 TransactionRestart = TransactionRestart_NONE, Detail = None\<rparr>"

text \<open>
  Modelled from the spec: the error kinds that section 7 classes as retryable at the
  sender (NotLeader, RangeNotFound, RangeKeyMismatch, NodeUnavailable, WriteIntent).
\<close>

fun senderRetryable :: "GoError \<Rightarrow> bool" where
  "senderRetryable NotLeaderError = True"
| "senderRetryable (RangeNotFoundError r) = True"
| "senderRetryable RangeKeyMismatchError = True"
| "senderRetryable NodeUnavailableError = True"
| "senderRetryable WriteIntentError = True"
| "senderRetryable _ = False"


section \<open>sql/parser: encoding of string literals\<close>

text \<open>
  A Go \<open>byte\<close> is an 8-bit word. The two arrays \<open>encodeMap\<close> and \<open>decodeMap\<close> have
  256 entries indexed by a byte, so they are total functions on bytes; \<open>init\<close> fills them
  with two loops over all indices (\<open>arrayRange\<close>), starting from the zero array. Only
  \<open>encodeMap\<close> is read by \<open>encodeSQLString\<close>. The table \<open>encodeRef\<close> maps
  NUL, backspace, form feed, newline, carriage return, tab, backslash and the single
  quote to the characters 0, b, f, n, r, t, backslash and single quote.
\<close>

type_synonym byte = "8 word"

definition dontEscape :: byte where
  "dontEscape = 255"

definition encodeRef :: "byte \<rightharpoonup> byte" where
  "encodeRef = map_of
     [(0x00, 0x30), (0x08, 0x62), (0x0C, 0x66), (0x0A, 0x6E),
      (0x0D, 0x72), (0x09, 0x74), (0x5C, 0x5C), (0x27, 0x27)]"

definition arrayRange :: "byte list" where
  "arrayRange = map of_nat [0..<256]"

definition encodeMap :: "byte \<Rightarrow> byte" where
  "encodeMap =
     fold (\<lambda>i m. case encodeRef i of Some to \<Rightarrow> m(i := to) | None \<Rightarrow> m) arrayRange
       (fold (\<lambda>i m. m(i := dontEscape)) arrayRange (\<lambda>_. 0))"

text \<open>
  The loop of \<open>encodeSQLString\<close> over the input: \<open>inp\<close> is the whole input, the
  second argument what is left of it from index \<open>i\<close> on, and \<open>buf\<close>, \<open>start\<close> are the
  two variables the loop updates. The slice \<open>in[start:i]\<close> is in range, since
  \<open>start \<le> i \<le> len(in)\<close> throughout. The bytes written are \<open>e\<close> (0x65), the single
  quote (0x27) and the backslash (0x5C).
\<close>

fun encodeSQLString_loop ::
  "byte list \<Rightarrow> byte list \<Rightarrow> nat \<Rightarrow> byte list \<Rightarrow> nat \<Rightarrow> byte list \<times> nat" where
  "encodeSQLString_loop inp [] i buf start = (buf, start)"
| "encodeSQLString_loop inp (ch # rest) i buf start =
     (let encodedChar = encodeMap ch in
      if encodedChar \<noteq> dontEscape then
        (let buf1 = (if start = 0 then buf @ [0x65, 0x27] else buf);
             buf2 = buf1 @ take (i - start) (drop start inp);
             buf3 = buf2 @ [0x5C, encodedChar]
         in encodeSQLString_loop inp rest (i + 1) buf3 (i + 1))
      else encodeSQLString_loop inp rest (i + 1) buf start)"

definition encodeSQLString :: "byte list \<Rightarrow> byte list \<Rightarrow> byte list" where
  "encodeSQLString buf inp =
     (case encodeSQLString_loop inp inp 0 buf 0 of (buf1, start) \<Rightarrow>
        (let buf2 = (if start = 0 then buf1 @ [0x27] else buf1);
             buf3 = buf2 @ drop start inp
         in buf3 @ [0x27]))"

text \<open>
  What the literal is to be, in the words of the claim about it: the eight escaped
  bytes, the character each is written as after a backslash, and the literal with its
  prefix.
\<close>

definition escapedBytes :: "byte set" where
  "escapedBytes = {0x00, 0x08, 0x0C, 0x0A, 0x0D, 0x09, 0x5C, 0x27}"

definition escapeLetter :: "byte \<Rightarrow> byte" where
  "escapeLetter ch =
     (if ch = 0x00 then 0x30 else if ch = 0x08 then 0x62 else if ch = 0x0C then 0x66
      else if ch = 0x0A then 0x6E else if ch = 0x0D then 0x72 else if ch = 0x09 then 0x74
      else ch)"

definition escapeByte :: "byte \<Rightarrow> byte list" where
  "escapeByte ch = (if ch \<in> escapedBytes then [0x5C, escapeLetter ch] else [ch])"

definition sqlStringLiteral :: "byte list \<Rightarrow> byte list" where
  "sqlStringLiteral inp =
     (if \<exists>ch \<in> set inp. ch \<in> escapedBytes then [0x65, 0x27] else [0x27])
     @ concat (map escapeByte inp) @ [0x27]"



section \<open>multiraft: the in-memory storage\<close>

type_synonym ref = nat

text \<open>
  \<open>MemoryStorage\<close> holds a map from group IDs to group storages. A group storage is a
  pointer to a \<open>raft.MemoryStorage\<close> object, and two calls return the same storage when
  they return the same pointer: so the objects live in a store (\<open>objects\<close>, indexed by
  address) and the map holds addresses. The content of a fresh object, what
  \<open>raft.NewMemoryStorage()\<close> of the raft library builds, is the parameter
  \<open>newStorage\<close>. The mutex is held for the whole call, which is one atomic step here.
\<close>

record 'g MemoryStorage =
  groups :: "RangeID \<rightharpoonup> ref"
  objects :: "'g list"

definition NewMemoryStorage :: "'g MemoryStorage" where
  "NewMemoryStorage = \<lparr>groups = Map.empty, objects = []\<rparr>"

definition GroupStorage ::
  "'g \<Rightarrow> 'g MemoryStorage \<Rightarrow> RangeID \<Rightarrow> ref \<times> 'g MemoryStorage" where
  "GroupStorage newStorage m groupID =
     (case groups m groupID of
        Some g \<Rightarrow> (g, m)
      | None \<Rightarrow>
          (let g = length (objects m)
           in (g, m\<lparr>groups := (groups m)(groupID \<mapsto> g),
                    objects := objects m @ [newStorage]\<rparr>)))"


section \<open>kv: the HTTP endpoint of the key-value database\<close>

text \<open>
  Modelled from the spec: the enum \<open>proto.Method\<close> and its \<open>String()\<close> are generated
  code outside the sources at hand. db.go names the twelve public methods; the internal
  ones are those that section 6 of the spec lists for the internal RPC. \<open>String()\<close>
  returns the name of the enum value.
\<close>

datatype Method =
    Get | Put | ConditionalPut | Increment | Delete | DeleteRange | Scan | ReverseScan
  | EndTransaction | Batch | AdminSplit | AdminMerge
  | InternalBatch | InternalPush | InternalHeartbeat | ResolveIntent | Merge | Split
  | ChangeReplicas | InternalRangeLookup | TruncateLog | LeaderLease

fun Method_String :: "Method \<Rightarrow> string" where
  "Method_String Get = ''Get''"
| "Method_String Put = ''Put''"
| "Method_String ConditionalPut = ''ConditionalPut''"
| "Method_String Increment = ''Increment''"
| "Method_String Delete = ''Delete''"
| "Method_String DeleteRange = ''DeleteRange''"
| "Method_String Scan = ''Scan''"
| "Method_String ReverseScan = ''ReverseScan''"
| "Method_String EndTransaction = ''EndTransaction''"
| "Method_String Batch = ''Batch''"
| "Method_String AdminSplit = ''AdminSplit''"
| "Method_String AdminMerge = ''AdminMerge''"
| "Method_String InternalBatch = ''InternalBatch''"
| "Method_String InternalPush = ''InternalPush''"
| "Method_String InternalHeartbeat = ''InternalHeartbeat''"
| "Method_String ResolveIntent = ''ResolveIntent''"
| "Method_String Merge = ''Merge''"
| "Method_String Split = ''Split''"
| "Method_String ChangeReplicas = ''ChangeReplicas''"
| "Method_String InternalRangeLookup = ''InternalRangeLookup''"
| "Method_String TruncateLog = ''TruncateLog''"
| "Method_String LeaderLease = ''LeaderLease''"

text \<open>
  A request is a value of one of the Go request types, one constructor for each. Of
  the fields only the two that \<open>verifyRequest\<close> reads are kept: the commit trigger of
  an EndTransaction request (a pointer, \<open>None\<close> for nil) and the requests of a batch.
  An element of \<open>BatchRequest.Requests\<close> is a union (generated code outside the
  sources at hand): \<open>GetValue()\<close> returns the request it holds, or nil, here \<open>None\<close>,
  when no field of the union is set, as in a batch unmarshalled from
  \<open>{"requests":[{}]}\<close>.
\<close>

datatype Request =
    GetRequest
  | PutRequest
  | ConditionalPutRequest
  | IncrementRequest
  | DeleteRequest
  | DeleteRangeRequest
  | ScanRequest
  | ReverseScanRequest
  | EndTransactionRequest (InternalCommitTrigger: "string option")
  | BatchRequest (Requests: "Request option list")
  | AdminSplitRequest
  | AdminMergeRequest
  | InternalBatchRequest
  | InternalPushRequest
  | InternalHeartbeatRequest
  | ResolveIntentRequest
  | MergeRequest
  | SplitRequest
  | ChangeReplicasRequest
  | InternalRangeLookupRequest
  | TruncateLogRequest
  | LeaderLeaseRequest

fun Request_Method :: "Request \<Rightarrow> Method" where
  "Request_Method GetRequest = Get"
| "Request_Method PutRequest = Put"
| "Request_Method ConditionalPutRequest = ConditionalPut"
| "Request_Method IncrementRequest = Increment"
| "Request_Method DeleteRequest = Delete"
| "Request_Method DeleteRangeRequest = DeleteRange"
| "Request_Method ScanRequest = Scan"
| "Request_Method ReverseScanRequest = ReverseScan"
| "Request_Method (EndTransactionRequest t) = EndTransaction"
| "Request_Method (BatchRequest rs) = Batch"
| "Request_Method AdminSplitRequest = AdminSplit"
| "Request_Method AdminMergeRequest = AdminMerge"
| "Request_Method InternalBatchRequest = InternalBatch"
| "Request_Method InternalPushRequest = InternalPush"
| "Request_Method InternalHeartbeatRequest = InternalHeartbeat"
| "Request_Method ResolveIntentRequest = ResolveIntent"
| "Request_Method MergeRequest = Merge"
| "Request_Method SplitRequest = Split"
| "Request_Method ChangeReplicasRequest = ChangeReplicas"
| "Request_Method InternalRangeLookupRequest = InternalRangeLookup"
| "Request_Method TruncateLogRequest = TruncateLog"
| "Request_Method LeaderLeaseRequest = LeaderLease"

datatype Response =
    GetResponse | PutResponse | ConditionalPutResponse | IncrementResponse | DeleteResponse
  | DeleteRangeResponse | ScanResponse | ReverseScanResponse | EndTransactionResponse
  | BatchResponse | AdminSplitResponse | AdminMergeResponse

text \<open>The map \<open>allPublicMethods\<close>, from the name of a method to the method.\<close>

definition allPublicMethods :: "string \<rightharpoonup> Method" where
  "allPublicMethods = map_of
     [(Method_String Get, Get),
      (Method_String Put, Put),
      (Method_String ConditionalPut, ConditionalPut),
      (Method_String Increment, Increment),
      (Method_String Delete, Delete),
      (Method_String DeleteRange, DeleteRange),
      (Method_String Scan, Scan),
      (Method_String ReverseScan, ReverseScan),
      (Method_String EndTransaction, EndTransaction),
      (Method_String Batch, Batch),
      (Method_String AdminSplit, AdminSplit),
      (Method_String AdminMerge, AdminMerge)]"

text \<open>
  A Go call returns or panics. \<open>verifyRequest\<close> returns nil (\<open>None\<close>) or one of two
  errors, kept apart here by a constructor. The batch loop reads
  \<open>t.Requests[i].GetValue().(proto.Request).Method()\<close>: the type assertion is unchecked,
  so it panics on a union that holds nothing; otherwise the loop returns at the first
  request whose method is not public.
\<close>

datatype 'a outcome = Panics | Returns 'a

datatype verifyError = CommitTriggerInPublicRequest string | NonPublicRequestInBatch string

fun verifyRequest_loop :: "Request option list \<Rightarrow> verifyError option outcome" where
  "verifyRequest_loop [] = Returns None"
| "verifyRequest_loop (u # us) =
     (case u of
        None \<Rightarrow> Panics
      | Some r \<Rightarrow>
          (let method = Request_Method r in
           case allPublicMethods (Method_String method) of
             None \<Rightarrow> Returns (Some (NonPublicRequestInBatch (Method_String method)))
           | Some _ \<Rightarrow> verifyRequest_loop us))"

fun verifyRequest :: "Request \<Rightarrow> verifyError option outcome" where
  "verifyRequest (EndTransactionRequest t) =
     (case t of
        Some trigger \<Rightarrow> Returns (Some (CommitTriggerInPublicRequest trigger))
      | None \<Rightarrow> Returns None)"
| "verifyRequest (BatchRequest us) = verifyRequest_loop us"
| "verifyRequest _ = Returns None"

text \<open>
  \<open>createArgsAndReply\<close> returns a fresh request and response of the method, or
  \<open>(nil, nil)\<close>, here \<open>None\<close>, for a name that is not a public method.
\<close>

definition createArgsAndReply :: "string \<Rightarrow> (Request \<times> Response) option" where
  "createArgsAndReply method =
     (case allPublicMethods method of
        Some m \<Rightarrow>
          (case m of
             Get \<Rightarrow> Some (GetRequest, GetResponse)
           | Put \<Rightarrow> Some (PutRequest, PutResponse)
           | ConditionalPut \<Rightarrow> Some (ConditionalPutRequest, ConditionalPutResponse)
           | Increment \<Rightarrow> Some (IncrementRequest, IncrementResponse)
           | Delete \<Rightarrow> Some (DeleteRequest, DeleteResponse)
           | DeleteRange \<Rightarrow> Some (DeleteRangeRequest, DeleteRangeResponse)
           | Scan \<Rightarrow> Some (ScanRequest, ScanResponse)
           | ReverseScan \<Rightarrow> Some (ReverseScanRequest, ReverseScanResponse)
           | EndTransaction \<Rightarrow> Some (EndTransactionRequest None, EndTransactionResponse)
           | Batch \<Rightarrow> Some (BatchRequest [], BatchResponse)
           | AdminSplit \<Rightarrow> Some (AdminSplitRequest, AdminSplitResponse)
           | AdminMerge \<Rightarrow> Some (AdminMergeRequest, AdminMergeResponse)
           | _ \<Rightarrow> None)
      | None \<Rightarrow> None)"


text \<open>
  Modelled from the spec: \<open>DBPrefix\<close> is \<open>client.KVDBEndpoint\<close>, a constant of a
  package outside the sources at hand; the spec gives the URL path of a request as
  \<open>/kv/db/<MethodName>\<close>.
\<close>

definition DBPrefix :: string where
  "DBPrefix = ''/kv/db/''"

definition HasPrefix :: "string \<Rightarrow> string \<Rightarrow> bool" where
  "HasPrefix s p = (take (length p) s = p)"

definition TrimPrefix :: "string \<Rightarrow> string \<Rightarrow> string" where
  "TrimPrefix s p = (if HasPrefix s p then drop (length p) s else s)"

definition StatusOK :: nat where "StatusOK = 200"
definition StatusBadRequest :: nat where "StatusBadRequest = 400"
definition StatusUnauthorized :: nat where "StatusUnauthorized = 401"
definition StatusNotFound :: nat where "StatusNotFound = 404"
definition StatusInternalServerError :: nat where "StatusInternalServerError = 500"

text \<open>
  What \<open>ServeHTTP\<close> writes to the response writer: \<open>http.Error\<close> writes the status
  code and the message as plain text; a successful reply is written with status 200.
\<close>

record HTTPResponse =
  status :: nat
  contentType :: string
  body :: string

definition httpError :: "string \<Rightarrow> nat \<Rightarrow> HTTPResponse" where
  "httpError msg code =
     \<lparr>status = code, contentType = ''text/plain; charset=utf-8'', body = msg @ [CHR 0x0A]\<rparr>"

text \<open>
  The HTTP request as the handler reads it: the URL path, the TLS state, the outcome of
  reading the body (\<open>ioutil.ReadAll\<close>: an error or the bytes) and the two headers that
  select the codecs. What the handler calls outside this package is the environment
  \<open>DBServerEnv\<close>: \<open>security.AuthenticationHook\<close> (an error, or the hook that checks
  the request's user against the certificate), \<open>util.UnmarshalRequest\<close> (an error, or
  the request filled from the body), the sender (it fills the reply),
  \<open>util.MarshalResponse\<close> (an error, or body and content type) and the text of a
  \<open>verifyRequest\<close> error. \<open>ServeHTTP\<close> returns the response written and the request
  sent to the sender, \<open>None\<close> when nothing was sent; when \<open>verifyRequest\<close> panics the
  handler panics with it, before anything is written or sent.
\<close>

record 'tls HTTPRequest =
  URLPath :: string
  TLS :: 'tls
  Body :: "string + string"
  ContentTypeHeader :: string
  AcceptHeader :: string

record 'tls DBServerEnv =
  AuthenticationHook :: "bool \<Rightarrow> 'tls \<Rightarrow> string + (Request \<Rightarrow> string option)"
  UnmarshalRequest :: "'tls HTTPRequest \<Rightarrow> string \<Rightarrow> Request \<Rightarrow> string + Request"
  Send :: "Request \<Rightarrow> Response \<Rightarrow> Response"
  MarshalResponse :: "'tls HTTPRequest \<Rightarrow> Response \<Rightarrow> string + (string \<times> string)"
  verifyErrorString :: "verifyError \<Rightarrow> string"

definition ServeHTTP ::
  "'tls DBServerEnv \<Rightarrow> bool \<Rightarrow> 'tls HTTPRequest
     \<Rightarrow> (HTTPResponse \<times> Request option) outcome" where
  "ServeHTTP env insecure r =
     (case AuthenticationHook env insecure (TLS r) of
        Inl err \<Rightarrow> Returns (httpError err StatusUnauthorized, None)
      | Inr authenticationHook \<Rightarrow>
          if \<not> HasPrefix (URLPath r) DBPrefix
          then Returns (httpError ''Not Found'' StatusNotFound, None)
          else
            (case createArgsAndReply (TrimPrefix (URLPath r) DBPrefix) of
               None \<Rightarrow> Returns (httpError ''Not Found'' StatusNotFound, None)
             | Some (args0, reply0) \<Rightarrow>
                 (case Body r of
                    Inl err \<Rightarrow> Returns (httpError err StatusInternalServerError, None)
                  | Inr reqBody \<Rightarrow>
                      (case UnmarshalRequest env r reqBody args0 of
                         Inl err \<Rightarrow> Returns (httpError err StatusBadRequest, None)
                       | Inr args \<Rightarrow>
                           (case verifyRequest args of
                              Panics \<Rightarrow> Panics
                            | Returns (Some err) \<Rightarrow>
                                Returns
                                  (httpError (verifyErrorString env err) StatusBadRequest, None)
                            | Returns None \<Rightarrow>
                                (case authenticationHook args of
                                   Some err \<Rightarrow>
                                     Returns (httpError err StatusUnauthorized, None)
                                 | None \<Rightarrow>
                                     (let reply = Send env args reply0 in
                                      case MarshalResponse env r reply of
                                        Inl err \<Rightarrow>
                                          Returns
                                            (httpError err StatusInternalServerError, Some args)
                                      | Inr (b, ct) \<Rightarrow>
                                          Returns
                                            (\<lparr>status = StatusOK, contentType = ct, body = b\<rparr>,
                                             Some args))))))))"

text \<open>
  A concrete environment and request, for evaluating \<open>ServeHTTP\<close>: the TLS state is
  the common name of the client certificate; \<open>root\<close> may act for every user, no
  certificate is refused at once, any other name is refused by the hook. The body
  \<open>get+push\<close> unmarshals to a batch of a Get and an InternalPush request, the body
  \<open>empty+push\<close> to a batch of an empty union and an InternalPush request.
\<close>

definition exampleEnv :: "string DBServerEnv" where
  "exampleEnv =
     \<lparr>AuthenticationHook =
        (\<lambda>insecure cn.
           if insecure \<or> cn = ''root'' then Inr (\<lambda>req. None)
           else if cn = [] then Inl ''no client certificate''
           else Inr (\<lambda>req. Some ''certificate user may not act for request user'')),
      UnmarshalRequest =
        (\<lambda>r reqBody args.
           if reqBody = ''garbage'' then Inl ''cannot unmarshal''
           else if args = BatchRequest [] \<and> reqBody = ''get+push''
             then Inr (BatchRequest [Some GetRequest, Some InternalPushRequest])
           else if args = BatchRequest [] \<and> reqBody = ''empty+push''
             then Inr (BatchRequest [None, Some InternalPushRequest])
           else if args = EndTransactionRequest None \<and> reqBody = ''trigger''
             then Inr (EndTransactionRequest (Some ''split''))
           else Inr args),
      Send = (\<lambda>args reply. reply),
      MarshalResponse =
        (\<lambda>r reply.
           if AcceptHeader r = ''application/json'' then Inr (''{}'', ''application/json'')
           else Inl ''unsupported encoding''),
      verifyErrorString =
        (\<lambda>e. case e of
           CommitTriggerInPublicRequest t \<Rightarrow> ''commit trigger: '' @ t
         | NonPublicRequestInBatch m \<Rightarrow> ''non-public request '' @ m)\<rparr>"

definition exampleRequest :: "string \<Rightarrow> string \<Rightarrow> string + string \<Rightarrow> string \<Rightarrow> string HTTPRequest" where
  "exampleRequest path cn reqBody accept =
     \<lparr>URLPath = path, TLS = cn, Body = reqBody,
      ContentTypeHeader = ''application/json'', AcceptHeader = accept\<rparr>"


section \<open>cli: the zone commands and the exit code of the process\<close>

text \<open>
  What a command writes: the usage text (\<open>cmd.Usage()\<close>), a logged error
  (\<open>log.Error\<close>, \<open>log.Errorf\<close>), standard output (\<open>fmt.Printf\<close>) and standard error
  (\<open>fmt.Fprintf(os.Stderr, ...)\<close>). A formatted output is kept as its format string,
  without the newlines of the source, and the list of its arguments.
\<close>

datatype Output =
    Usage
  | LogError string
  | LogErrorf string "string list"
  | Printf string "string list"
  | Fprintf_Stderr string "string list"

text \<open>
  The admin client of package client and \<open>ioutil.ReadFile\<close> are outside this package;
  their outcomes are the fields of \<open>AdminClient\<close>: an error (\<open>Inl\<close>, or \<open>Some\<close> for a
  call that returns only an error) or the result.
\<close>

record AdminClient =
  admin_GetYAML :: "string \<Rightarrow> string + string"
  admin_List :: "string + string list"
  admin_Delete :: "string \<Rightarrow> string option"
  admin_SetYAML :: "string \<Rightarrow> string \<Rightarrow> string option"
  ioutil_ReadFile :: "string \<Rightarrow> string + string"

text \<open>
  The four \<open>Run\<close> hooks of zone.go. A hook has the Go type
  \<open>func(cmd *cobra.Command, args []string)\<close>: it returns nothing, so the model returns
  only what it wrote. \<open>args ! 0\<close> and \<open>args ! 1\<close> are read after the length check.
\<close>

definition runGetZone :: "AdminClient \<Rightarrow> string list \<Rightarrow> Output list" where
  "runGetZone admin args =
     (if length args \<noteq> 1 then [Usage]
      else case admin_GetYAML admin (args ! 0) of
             Inl err \<Rightarrow> [LogError err]
           | Inr content \<Rightarrow> [Printf ''Zone config for prefix %q:%s'' [args ! 0, content]])"

definition runLsZones :: "AdminClient \<Rightarrow> string list \<Rightarrow> Output list" where
  "runLsZones admin args =
     (if length args > 0 then [Usage]
      else case admin_List admin of
             Inl err \<Rightarrow> [LogError err]
           | Inr list \<Rightarrow> [Printf ''Zone keys:%s'' list])"

definition runRmZone :: "AdminClient \<Rightarrow> string list \<Rightarrow> Output list" where
  "runRmZone admin args =
     (if length args \<noteq> 1 then [Usage]
      else case admin_Delete admin (args ! 0) of
             Some err \<Rightarrow> [LogError err]
           | None \<Rightarrow> [Printf ''Deleted zone key %q'' [args ! 0]])"

definition runSetZone :: "AdminClient \<Rightarrow> string list \<Rightarrow> Output list" where
  "runSetZone admin args =
     (if length args \<noteq> 2 then [Usage]
      else case ioutil_ReadFile admin (args ! 1) of
             Inl err \<Rightarrow> [LogErrorf ''unable to read zone config file %q: %s'' [args ! 1, err]]
           | Inr content \<Rightarrow>
               (case admin_SetYAML admin (args ! 0) content of
                  Some err \<Rightarrow> [LogError err]
                | None \<Rightarrow> [Printf ''Wrote zone config to %q'' [args ! 0]]))"

text \<open>
  Modelled from the spec: \<open>cli.Run\<close> is outside the sources at hand. The spec gives the
  command \<open>zone\<close> with the subcommands get, set, ls and rm; zone.go attaches the four
  hooks to them and gives \<open>zone\<close> itself a hook that prints the usage. \<open>cli.Run\<close>
  hands the arguments to the command tree, which runs the hook of the command they
  select; since a hook returns nothing, the error of \<open>cli.Run\<close> after a hook has run is
  nil. Every other command line is left to the parameter \<open>other\<close>. Flags are not
  modelled.
\<close>

definition Run ::
  "(string list \<Rightarrow> string option \<times> Output list) \<Rightarrow> AdminClient \<Rightarrow> string list
     \<Rightarrow> string option \<times> Output list" where
  "Run other admin args =
     (if args = [''zone''] then (None, [Usage])
      else if take 2 args = [''zone'', ''get''] then (None, runGetZone admin (drop 2 args))
      else if take 2 args = [''zone'', ''ls''] then (None, runLsZones admin (drop 2 args))
      else if take 2 args = [''zone'', ''rm''] then (None, runRmZone admin (drop 2 args))
      else if take 2 args = [''zone'', ''set''] then (None, runSetZone admin (drop 2 args))
      else other args)"

text \<open>
  \<open>main\<close> of main.go, from the arguments of the process to its exit code and output.
  A Go program whose \<open>main\<close> returns exits with code 0; \<open>os.Args[1:]\<close> of an empty
  \<open>os.Args\<close> panics. The settings of the runtime and the random seed are left out.
\<close>

datatype Exit = ExitCode nat | Panic

definition main ::
  "(string list \<Rightarrow> string option \<times> Output list) \<Rightarrow> AdminClient \<Rightarrow> string list
     \<Rightarrow> Exit \<times> Output list" where
  "main other admin osArgs =
     (let osArgs1 = (if length osArgs = 1 then osArgs @ [''help''] else osArgs) in
      if osArgs1 = [] then (Panic, [])
      else case Run other admin (tl osArgs1) of
             (Some err, out) \<Rightarrow>
               (ExitCode 1, out @ [Fprintf_Stderr ''Failed running command %q: %v'' (tl osArgs1 @ [err])])
           | (None, out) \<Rightarrow> (ExitCode 0, out))"

text \<open>
  A concrete admin client whose server refuses every call, and a command tree with
  no other command, for evaluating \<open>main\<close>.
\<close>

definition downAdmin :: AdminClient where
  "downAdmin =
     \<lparr>admin_GetYAML = (\<lambda>k. Inl ''connection refused''),
      admin_List = Inl ''connection refused'',
      admin_Delete = (\<lambda>k. Some ''connection refused''),
      admin_SetYAML = (\<lambda>k b. Some ''connection refused''),
      ioutil_ReadFile = (\<lambda>f. if f = ''zone.yaml'' then Inr ''replicas: []'' else Inl ''no such file'')\<rparr>"

definition noOtherCommand :: "string list \<Rightarrow> string option \<times> Output list" where
  "noOtherCommand args = (Some ''unknown command'', [])"


section \<open>storage: the command queue\<close>

text \<open>
  Modelled from the spec: the implementation of the command queue (\<open>NewCommandQueue\<close>,
  \<open>Add\<close>, \<open>GetWait\<close>, \<open>Remove\<close>, \<open>Clear\<close>) is outside the sources at hand; only its
  test, command_queue_test.go, is there. Section 4.2 of the spec describes it: \<open>Add\<close>
  registers a pending command over a key range and returns a handle; \<open>GetWait\<close>
  registers a barrier that completes once all conflicting previously registered
  commands have been removed; two commands conflict iff their key ranges overlap and at
  least one is not read-only; \<open>Remove\<close> finalizes the command and releases the barriers
  that were waiting on it alone; \<open>Clear\<close> releases all barriers.

  Keys are byte strings in lexicographic order, a key range is \<open>[start, end)\<close>, and, as
  the test calls \<open>Add\<close> and \<open>GetWait\<close>, an empty end key stands for the single key
  \<open>start\<close>, whose range ends at the next key, \<open>start\<close> followed by a zero byte. A
  barrier is the wait group the caller hands to \<open>GetWait\<close>; the queue keeps, for each
  barrier, the handles of the commands it still waits for, and the barrier is complete
  when there is none.
\<close>

type_synonym Key = "byte list"
type_synonym handle = nat
type_synonym barrier = nat

record Cmd =
  cmdStart :: Key
  cmdEnd :: Key
  cmdReadOnly :: bool




record CommandQueue =
  commands :: "(handle \<times> Cmd) list"
  waiting :: "barrier \<Rightarrow> handle list"
  nextHandle :: handle






definition CommandQueue_Clear :: "CommandQueue \<Rightarrow> CommandQueue" where
  "CommandQueue_Clear cq = cq\<lparr>commands := [], waiting := (\<lambda>w. [])\<rparr>"







section \<open>storage/engine: multi-version reads and writes\<close>

text \<open>
  Modelled from the spec: the MVCC operations (\<open>MVCCGet\<close>, \<open>MVCCPut\<close>) are outside the
  sources at hand; of package engine only the generated messages \<open>MVCCValue\<close>,
  \<open>MVCCMetadata\<close> and \<open>MVCCStats\<close> are there. Sections 3 and 4.1 of the spec describe
  the data: under a key, versioned values (a value or a tombstone, \<open>None\<close> here) at
  distinct timestamps, scanned newest-first, and at most one intent, which points to a
  transaction and sits at the most recent version. The engine maps every key to its
  intent and its versions, newest first; a key never written has neither.
\<close>

type_synonym Value = "byte list"

record Txn =
  txnID :: nat
  txnEpoch :: nat
  txnMaxOffset :: int
  txnObserved :: "Key \<Rightarrow> bool"

record Intent =
  intentTxn :: nat
  intentEpoch :: nat

record KeyState =
  intent :: "Intent option"
  versions :: "(Timestamp \<times> Value option) list"

type_synonym Engine = "Key \<Rightarrow> KeyState"

definition emptyEngine :: Engine where
  "emptyEngine = (\<lambda>k. \<lparr>intent = None, versions = []\<rparr>)"




text \<open>
  Modelled from the spec: \<open>Put(key, value, writeTs, txn?)\<close> creates a version at
  \<open>writeTs\<close>. If there is an existing version at \<open>ts' \<ge> writeTs\<close> the write fails with
  WriteTooOld reporting \<open>ts'\<close>; if an intent of another transaction exists it fails
  with WriteIntent, the two checks in the order the spec gives them. A transactional
  put writes the intent, in place of the transaction's earlier intent when there is
  one; a non-transactional put writes the version directly. The result is the error,
  if any, and the engine after the call.
\<close>

definition MVCCPut ::
  "Engine \<Rightarrow> Key \<Rightarrow> Value \<Rightarrow> Timestamp \<Rightarrow> Txn option \<Rightarrow> GoError option \<times> Engine" where
  "MVCCPut eng key val writeTs txn =
     (let ks = eng key in
      case find (\<lambda>tv. ts_le writeTs (fst tv)) (versions ks) of
        Some tv \<Rightarrow> (Some (WriteTooOldError writeTs (fst tv)), eng)
      | None \<Rightarrow>
          (case (intent ks, txn) of
             (Some i, None) \<Rightarrow> (Some WriteIntentError, eng)
           | (Some i, Some t) \<Rightarrow>
               if intentTxn i \<noteq> txnID t then (Some WriteIntentError, eng)
               else (None, eng(key := \<lparr>intent = Some \<lparr>intentTxn = txnID t, intentEpoch = txnEpoch t\<rparr>,
                                       versions = (writeTs, Some val) # tl (versions ks)\<rparr>))
           | (None, Some t) \<Rightarrow>
               (None, eng(key := \<lparr>intent = Some \<lparr>intentTxn = txnID t, intentEpoch = txnEpoch t\<rparr>,
                                  versions = (writeTs, Some val) # versions ks\<rparr>))
           | (None, None) \<Rightarrow>
               (None, eng(key := ks\<lparr>versions := (writeTs, Some val) # versions ks\<rparr>))))"

text \<open>
  Modelled from the spec: the invariant of MVCC monotonicity, the versions of a key have
  strictly decreasing timestamps.
\<close>

definition newestFirst :: "(Timestamp \<times> Value option) list \<Rightarrow> bool" where
  "newestFirst vs = sorted_wrt (\<lambda>a b. ts_less (fst b) (fst a)) vs"

text \<open>An engine with one version, of the key \<open>a\<close> at wall time 10.\<close>

definition exampleEngine :: Engine where
  "exampleEngine =
     snd (MVCCPut emptyEngine [0x61] [0x31] \<lparr>WallTime = 10, Logical = 0\<rparr> None)"


section \<open>Transaction restart classification\<close>

text \<open>
  C2. Among the typed errors exactly four implement \<open>CanRestartTransaction\<close>:
  TransactionRetryError answers IMMEDIATE, TransactionAbortedError and
  TransactionPushError answer BACKOFF, ReadWithinUncertaintyIntervalError answers
  IMMEDIATE; and the wire error filled from one of them by \<open>SetResponseGoError\<close>
  reports the same classification.
\<close>

theorem CanRestartTransaction_classification:
  "CanRestartTransaction TransactionRetryError = Some TransactionRestart_IMMEDIATE
   \<and> CanRestartTransaction TransactionAbortedError = Some TransactionRestart_BACKOFF
   \<and> CanRestartTransaction TransactionPushError = Some TransactionRestart_BACKOFF
   \<and> CanRestartTransaction (ReadWithinUncertaintyIntervalError t x)
       = Some TransactionRestart_IMMEDIATE
   \<and> ((CanRestartTransaction err \<noteq> None) =
        (err = TransactionRetryError \<or> err = TransactionAbortedError
         \<or> err = TransactionPushError
         \<or> (\<exists>a b. err = ReadWithinUncertaintyIntervalError a b)))
   \<and> Error_CanRestartTransaction (SetResponseGoError s v e err) =
       (case CanRestartTransaction err of Some r \<Rightarrow> r | None \<Rightarrow> TransactionRestart e)"
  by (cases err) (simp_all add: SetResponseGoError_def Error_CanRestartTransaction_def Let_def)


section \<open>Errors that report themselves retryable\<close>

text \<open>
  C5, as stated: every error kind that the spec classes as retryable at the sender
  reports itself retryable. It fails at NotLeaderError: the type has no \<open>CanRetry\<close>
  method to answer true with.
\<close>

theorem senderRetryable_NotLeader_counterexample:
  "senderRetryable NotLeaderError \<and> CanRetry NotLeaderError \<noteq> Some True"
  by simp

text \<open>
  C5, amended. \<open>CanRetry\<close> returns true for RangeNotFoundError and
  RangeKeyMismatchError and false for LeaseRejectedError, and no other error kind
  declares the method; for the kinds without it (NotLeaderError, NodeUnavailableError
  and WriteIntentError among them) \<open>SetResponseGoError\<close> leaves the wire error's
  \<open>Retryable\<close> flag as it was.
\<close>

theorem CanRetry_classification:
  "CanRetry (RangeNotFoundError rid) = Some True
   \<and> CanRetry RangeKeyMismatchError = Some True
   \<and> CanRetry LeaseRejectedError = Some False
   \<and> CanRetry NotLeaderError = None
   \<and> CanRetry NodeUnavailableError = None
   \<and> CanRetry WriteIntentError = None
   \<and> ((CanRetry err \<noteq> None) =
        (err = LeaseRejectedError \<or> err = RangeKeyMismatchError
         \<or> (\<exists>r. err = RangeNotFoundError r)))
   \<and> Error_CanRetry (SetResponseGoError s v e err) =
       (case CanRetry err of Some b \<Rightarrow> b | None \<Rightarrow> Retryable e)"
  by (cases err) (simp_all add: SetResponseGoError_def Error_CanRetry_def Let_def)


section \<open>String literals escape eight bytes\<close>

lemma fold_const_upd:
  "fold (\<lambda>i m. m(i := d)) xs m = (\<lambda>b. if b \<in> set xs then d else m b)"
  by (induction xs arbitrary: m) (auto simp: fun_eq_iff)

lemma fold_ref_upd:
  "fold (\<lambda>i m. case r i of Some t \<Rightarrow> m(i := t) | None \<Rightarrow> m) xs m
     = (\<lambda>b. if b \<in> set xs then (case r b of Some t \<Rightarrow> t | None \<Rightarrow> m b) else m b)"
  by (induction xs arbitrary: m) (auto simp: fun_eq_iff split: option.splits)

lemma set_arrayRange: "set arrayRange = UNIV"
proof -
  have "w \<in> set arrayRange" for w :: byte
  proof -
    have "unat w < 256" using unsigned_less [of w] by simp
    moreover have "of_nat (unat w) = w" by simp
    ultimately show ?thesis
      unfolding arrayRange_def by (metis (no_types) atLeastLessThan_iff imageI le0 set_map set_upt)
  qed
  then show ?thesis by auto
qed

lemma encodeMap_eq:
  "encodeMap ch = (case encodeRef ch of Some t \<Rightarrow> t | None \<Rightarrow> dontEscape)"
  unfolding encodeMap_def
  by (simp add: fold_const_upd fold_ref_upd set_arrayRange)

lemma encodeMap_escaped:
  "encodeMap ch = (if ch \<in> escapedBytes then escapeLetter ch else dontEscape)"
  by (simp add: encodeMap_eq encodeRef_def escapedBytes_def escapeLetter_def)

lemma encodeMap_dontEscape: "(encodeMap ch \<noteq> dontEscape) = (ch \<in> escapedBytes)"
  by (simp add: encodeMap_escaped escapedBytes_def dontEscape_def escapeLetter_def)

lemma loop_inv:
  "inp = pre @ rest \<Longrightarrow> i = length pre \<Longrightarrow> start \<le> i
   \<Longrightarrow> (start = 0) = (\<forall>ch \<in> set pre. ch \<notin> escapedBytes)
   \<Longrightarrow> \<forall>ch \<in> set (drop start pre). ch \<notin> escapedBytes
   \<Longrightarrow> encodeSQLString_loop inp rest i buf start = (b', s')
   \<Longrightarrow> (if s' = 0 then b' @ [0x27] else b') @ drop s' inp
       = (if start = 0
          then buf @ (if \<exists>ch \<in> set rest. ch \<in> escapedBytes then [0x65, 0x27] else [0x27])
          else buf)
         @ drop start pre @ concat (map escapeByte rest)"
proof (induction rest arbitrary: pre i buf start)
  case Nil
  then show ?case by auto
next
  case (Cons ch rest)
  have len: "i = length pre" and inp: "inp = pre @ ch # rest" and le: "start \<le> length pre"
    using Cons.prems by simp_all
  show ?case
  proof (cases "ch \<in> escapedBytes")
    case True
    define buf3 where "buf3 = (if start = 0 then buf @ [0x65, 0x27] else buf)
        @ drop start pre @ [0x5C, escapeLetter ch]"
    have seg: "take (i - start) (drop start inp) = drop start pre"
      using len inp le by simp
    have esc: "encodeMap ch \<noteq> dontEscape" "encodeMap ch = escapeLetter ch"
      using True encodeMap_dontEscape [of ch] encodeMap_escaped [of ch] by simp_all
    have step: "encodeSQLString_loop inp rest (i + 1) buf3 (i + 1) = (b', s')"
      using Cons.prems(6) esc seg unfolding buf3_def by (simp add: Let_def)
    have "(if s' = 0 then b' @ [0x27] else b') @ drop s' inp
            = buf3 @ concat (map escapeByte rest)"
      using Cons.IH [of "pre @ [ch]" "i + 1" "i + 1" buf3] step inp len True by simp
    moreover have "escapeByte ch = [0x5C, escapeLetter ch]"
      using True by (simp add: escapeByte_def)
    ultimately show ?thesis
      using True by (simp add: buf3_def)
  next
    case False
    have esc: "encodeMap ch = dontEscape"
      using False encodeMap_dontEscape [of ch] by simp
    have step: "encodeSQLString_loop inp rest (i + 1) buf start = (b', s')"
      using Cons.prems(6) esc by simp
    have "(if s' = 0 then b' @ [0x27] else b') @ drop s' inp
            = (if start = 0
               then buf @ (if \<exists>c \<in> set rest. c \<in> escapedBytes then [0x65, 0x27] else [0x27])
               else buf)
              @ drop start (pre @ [ch]) @ concat (map escapeByte rest)"
      using Cons.IH [of "pre @ [ch]" "i + 1" start buf] step inp len le False Cons.prems(4,5)
      by simp
    moreover have "escapeByte ch = [ch]"
      using False by (simp add: escapeByte_def)
    ultimately show ?thesis
      using False le by simp
  qed
qed

lemma encodeSQLString_refines:
  "encodeSQLString buf inp = buf @ sqlStringLiteral inp"
proof -
  obtain b' s' where r: "encodeSQLString_loop inp inp 0 buf 0 = (b', s')"
    by (cases "encodeSQLString_loop inp inp 0 buf 0")
  have "(if s' = 0 then b' @ [0x27] else b') @ drop s' inp
          = buf @ (if \<exists>ch \<in> set inp. ch \<in> escapedBytes then [0x65, 0x27] else [0x27])
            @ concat (map escapeByte inp)"
    using loop_inv [of inp "[]" inp 0 0 buf b' s'] r by simp
  then show ?thesis
    using r by (simp add: encodeSQLString_def sqlStringLiteral_def Let_def)
qed

text \<open>
  C9. \<open>encodeSQLString\<close> appends to the buffer the literal of the input: exactly the
  eight bytes NUL, backspace, form feed, newline, carriage return, tab, backslash and
  single quote are escaped, each as a backslash and its mapped character; the literal
  starts with \<open>e'\<close> when some byte of the input is escaped and with \<open>'\<close> otherwise, and
  when no byte is escaped the input stands verbatim between the quotes.
\<close>

theorem encodeSQLString_escapes_eight:
  "encodeSQLString buf inp
     = buf @ (if \<exists>ch \<in> set inp. ch \<in> escapedBytes then [0x65, 0x27] else [0x27])
         @ concat (map escapeByte inp) @ [0x27]
   \<and> (encodeMap ch \<noteq> dontEscape) = (ch \<in> {0x00, 0x08, 0x0C, 0x0A, 0x0D, 0x09, 0x5C, 0x27})
   \<and> escapeByte ch = (if encodeMap ch \<noteq> dontEscape then [0x5C, encodeMap ch] else [ch])
   \<and> map encodeMap [0x00, 0x08, 0x0C, 0x0A, 0x0D, 0x09, 0x5C, 0x27]
       = [0x30, 0x62, 0x66, 0x6E, 0x72, 0x74, 0x5C, 0x27]
   \<and> ((\<forall>c \<in> set inp. encodeMap c = dontEscape)
        \<longrightarrow> encodeSQLString buf inp = buf @ [0x27] @ inp @ [0x27])"
proof -
  have verbatim: "concat (map escapeByte xs) = xs" if "\<forall>c \<in> set xs. c \<notin> escapedBytes" for xs
    using that by (induction xs) (simp_all add: escapeByte_def)
  have none: "(encodeMap c = dontEscape) = (c \<notin> escapedBytes)" for c
    using encodeMap_dontEscape [of c] by blast
  have "encodeSQLString buf inp = buf @ [0x27] @ inp @ [0x27]"
    if "\<forall>c \<in> set inp. encodeMap c = dontEscape"
    using that verbatim [of inp] by (simp add: encodeSQLString_refines sqlStringLiteral_def none)
  moreover have "(encodeMap ch \<noteq> dontEscape) = (ch \<in> {0x00, 0x08, 0x0C, 0x0A, 0x0D, 0x09, 0x5C, 0x27})"
    using encodeMap_dontEscape [of ch] by (simp add: escapedBytes_def)
  moreover have "escapeByte ch = (if encodeMap ch \<noteq> dontEscape then [0x5C, encodeMap ch] else [ch])"
    by (simp add: escapeByte_def encodeMap_dontEscape) (simp add: encodeMap_escaped)
  moreover have "map encodeMap [0x00, 0x08, 0x0C, 0x0A, 0x0D, 0x09, 0x5C, 0x27]
       = [0x30, 0x62, 0x66, 0x6E, 0x72, 0x74, 0x5C, 0x27]"
    by (simp add: encodeMap_escaped escapedBytes_def escapeLetter_def)
  ultimately show ?thesis
    by (simp add: encodeSQLString_refines sqlStringLiteral_def)
qed

theorem encodeSQLString_escapes_eight_witness:
  "encodeMap 0x61 = dontEscape \<and> encodeMap 0x62 = dontEscape
   \<and> encodeSQLString [] [0x61, 0x62] = [0x27, 0x61, 0x62, 0x27]
   \<and> encodeSQLString [] [0x61, 0x27, 0x0A] = [0x65, 0x27, 0x61, 0x5C, 0x27, 0x5C, 0x6E, 0x27]"
proof -
  have a: "encodeMap 0x61 = dontEscape" and b: "encodeMap 0x62 = dontEscape"
    by (simp_all add: encodeMap_escaped escapedBytes_def)
  have "(\<forall>c \<in> set [0x61, 0x62]. encodeMap c = dontEscape)
          \<longrightarrow> encodeSQLString [] [0x61, 0x62] = [] @ [0x27] @ [0x61, 0x62] @ [0x27]"
    using encodeSQLString_escapes_eight [of "[]" "[0x61, 0x62]" 0] by blast
  then have "encodeSQLString [] [0x61, 0x62] = [0x27, 0x61, 0x62, 0x27]"
    using a b by simp
  moreover have "encodeSQLString [] [0x61, 0x27, 0x0A] = [0x65, 0x27, 0x61, 0x5C, 0x27, 0x5C, 0x6E, 0x27]"
    using encodeSQLString_escapes_eight [of "[]" "[0x61, 0x27, 0x0A]"]
    by (simp add: escapeByte_def escapedBytes_def escapeLetter_def)
  ultimately show ?thesis using a b by simp
qed


section \<open>GroupStorage is idempotent\<close>

text \<open>
  C10. The first call of \<open>GroupStorage\<close> for a group ID allocates a new storage
  object and stores it under the ID; a call for an ID that is present returns the
  stored object and changes nothing, so every later call with the same ID returns the
  same object, also after a call for another ID; the entries of all other groups and
  all objects that existed before stay as they were.
\<close>

theorem GroupStorage_idempotent:
  "GroupStorage new m gid = (g, m') \<Longrightarrow>
     GroupStorage new m' gid = (g, m')
     \<and> groups m' gid = Some g
     \<and> (groups m gid = None \<longrightarrow>
          g = length (objects m) \<and> objects m' = objects m @ [new])
     \<and> (groups m gid \<noteq> None \<longrightarrow> m' = m)
     \<and> (\<forall>other. other \<noteq> gid \<longrightarrow> groups m' other = groups m other)
     \<and> (\<forall>r < length (objects m). objects m' ! r = objects m ! r)
     \<and> (\<forall>other. fst (GroupStorage new (snd (GroupStorage new m' other)) gid) = g)"
  by (auto simp: GroupStorage_def Let_def nth_append split: option.splits)

theorem GroupStorage_idempotent_witness:
  "GroupStorage (0::nat) NewMemoryStorage 7 = (0, \<lparr>groups = [7 \<mapsto> 0], objects = [0]\<rparr>)
   \<and> GroupStorage (0::nat) \<lparr>groups = [7 \<mapsto> 0], objects = [0]\<rparr> 7
       = (0, \<lparr>groups = [7 \<mapsto> 0], objects = [0]\<rparr>)"
proof -
  have h: "GroupStorage (0::nat) NewMemoryStorage 7 = (0, \<lparr>groups = [7 \<mapsto> 0], objects = [0]\<rparr>)"
    by (simp add: GroupStorage_def NewMemoryStorage_def)
  show ?thesis
    using GroupStorage_idempotent [OF h] h by simp
qed


section \<open>Status codes of the key-value endpoint\<close>

lemma allPublicMethods_public:
  "(allPublicMethods (Method_String m) = None) =
   (m \<notin> {Get, Put, ConditionalPut, Increment, Delete, DeleteRange, Scan, ReverseScan,
           EndTransaction, Batch, AdminSplit, AdminMerge})"
  by (cases m) (simp_all add: allPublicMethods_def)

lemma ServeHTTP_sent:
  "ServeHTTP env insecure r = Returns (resp, Some a) \<Longrightarrow>
   \<exists>hook tmpl reply b.
     AuthenticationHook env insecure (TLS r) = Inr hook
     \<and> HasPrefix (URLPath r) DBPrefix
     \<and> createArgsAndReply (TrimPrefix (URLPath r) DBPrefix) = Some (tmpl, reply)
     \<and> Body r = Inr b
     \<and> UnmarshalRequest env r b tmpl = Inr a
     \<and> verifyRequest a = Returns None
     \<and> hook a = None"
  by (auto simp: ServeHTTP_def Let_def
      split: sum.splits option.splits if_splits prod.splits outcome.splits)

lemma ServeHTTP_status_set:
  "ServeHTTP env insecure r = Returns (resp, fwd) \<Longrightarrow>
   status resp
     \<in> {StatusOK, StatusBadRequest, StatusUnauthorized, StatusNotFound, StatusInternalServerError}"
  by (auto simp: ServeHTTP_def Let_def httpError_def
      split: sum.splits option.splits if_splits prod.splits outcome.splits)

lemma ServeHTTP_panics:
  "(ServeHTTP env insecure r = Panics) =
   (\<exists>hook tmpl reply b a.
      AuthenticationHook env insecure (TLS r) = Inr hook
      \<and> HasPrefix (URLPath r) DBPrefix
      \<and> createArgsAndReply (TrimPrefix (URLPath r) DBPrefix) = Some (tmpl, reply)
      \<and> Body r = Inr b
      \<and> UnmarshalRequest env r b tmpl = Inr a
      \<and> verifyRequest a = Panics)"
  by (auto simp: ServeHTTP_def Let_def
      split: sum.splits option.splits if_splits prod.splits outcome.splits)

text \<open>
  C6. The status of the response follows the first check that fails: 401 when the TLS
  authentication fails, 404 when the path lacks the prefix or names no public method,
  500 when the body cannot be read, 400 when the body cannot be unmarshalled, 400 when
  \<open>verifyRequest\<close> returns an error, 401 when the request's user fails the
  authentication hook; otherwise the request is sent to the sender, and the reply is
  500 when it cannot be marshalled and 200 otherwise. A request is sent only when all
  six checks before the sender passed; every response written has one of the five
  statuses; and the handler writes none exactly when \<open>verifyRequest\<close> panics.
\<close>

theorem ServeHTTP_status:
  "(AuthenticationHook env insecure (TLS r) = Inl eAuth
      \<longrightarrow> ServeHTTP env insecure r = Returns (httpError eAuth StatusUnauthorized, None))
   \<and> (AuthenticationHook env insecure (TLS r) = Inr hook
      \<and> \<not> HasPrefix (URLPath r) DBPrefix
      \<longrightarrow> ServeHTTP env insecure r = Returns (httpError ''Not Found'' StatusNotFound, None))
   \<and> (AuthenticationHook env insecure (TLS r) = Inr hook
      \<and> HasPrefix (URLPath r) DBPrefix
      \<and> createArgsAndReply (TrimPrefix (URLPath r) DBPrefix) = None
      \<longrightarrow> ServeHTTP env insecure r = Returns (httpError ''Not Found'' StatusNotFound, None))
   \<and> (AuthenticationHook env insecure (TLS r) = Inr hook
      \<and> HasPrefix (URLPath r) DBPrefix
      \<and> createArgsAndReply (TrimPrefix (URLPath r) DBPrefix) = Some (tmpl, reply)
      \<and> Body r = Inl eRead
      \<longrightarrow> ServeHTTP env insecure r = Returns (httpError eRead StatusInternalServerError, None))
   \<and> (AuthenticationHook env insecure (TLS r) = Inr hook
      \<and> HasPrefix (URLPath r) DBPrefix
      \<and> createArgsAndReply (TrimPrefix (URLPath r) DBPrefix) = Some (tmpl, reply)
      \<and> Body r = Inr b
      \<and> UnmarshalRequest env r b tmpl = Inl eUnm
      \<longrightarrow> ServeHTTP env insecure r = Returns (httpError eUnm StatusBadRequest, None))
   \<and> (AuthenticationHook env insecure (TLS r) = Inr hook
      \<and> HasPrefix (URLPath r) DBPrefix
      \<and> createArgsAndReply (TrimPrefix (URLPath r) DBPrefix) = Some (tmpl, reply)
      \<and> Body r = Inr b
      \<and> UnmarshalRequest env r b tmpl = Inr a
      \<and> verifyRequest a = Returns (Some eVer)
      \<longrightarrow> ServeHTTP env insecure r = Returns (httpError (verifyErrorString env eVer) StatusBadRequest, None))
   \<and> (AuthenticationHook env insecure (TLS r) = Inr hook
      \<and> HasPrefix (URLPath r) DBPrefix
      \<and> createArgsAndReply (TrimPrefix (URLPath r) DBPrefix) = Some (tmpl, reply)
      \<and> Body r = Inr b
      \<and> UnmarshalRequest env r b tmpl = Inr a
      \<and> verifyRequest a = Returns None
      \<and> hook a = Some eUser
      \<longrightarrow> ServeHTTP env insecure r = Returns (httpError eUser StatusUnauthorized, None))
   \<and> (AuthenticationHook env insecure (TLS r) = Inr hook
      \<and> HasPrefix (URLPath r) DBPrefix
      \<and> createArgsAndReply (TrimPrefix (URLPath r) DBPrefix) = Some (tmpl, reply)
      \<and> Body r = Inr b
      \<and> UnmarshalRequest env r b tmpl = Inr a
      \<and> verifyRequest a = Returns None
      \<and> hook a = None
      \<and> MarshalResponse env r (Send env a reply) = Inl eMar
      \<longrightarrow> ServeHTTP env insecure r = Returns (httpError eMar StatusInternalServerError, Some a))
   \<and> (AuthenticationHook env insecure (TLS r) = Inr hook
      \<and> HasPrefix (URLPath r) DBPrefix
      \<and> createArgsAndReply (TrimPrefix (URLPath r) DBPrefix) = Some (tmpl, reply)
      \<and> Body r = Inr b
      \<and> UnmarshalRequest env r b tmpl = Inr a
      \<and> verifyRequest a = Returns None
      \<and> hook a = None
      \<and> MarshalResponse env r (Send env a reply) = Inr (bd, ct)
      \<longrightarrow> ServeHTTP env insecure r = Returns (\<lparr>status = StatusOK, contentType = ct, body = bd\<rparr>, Some a))
   \<and> (ServeHTTP env insecure r = Returns (resp, Some sent) \<longrightarrow>
        (\<exists>hook tmpl reply b.
           AuthenticationHook env insecure (TLS r) = Inr hook
           \<and> HasPrefix (URLPath r) DBPrefix
           \<and> createArgsAndReply (TrimPrefix (URLPath r) DBPrefix) = Some (tmpl, reply)
           \<and> Body r = Inr b
           \<and> UnmarshalRequest env r b tmpl = Inr sent
           \<and> verifyRequest sent = Returns None
           \<and> hook sent = None))
   \<and> (ServeHTTP env insecure r = Returns (resp, fwd) \<longrightarrow>
        status resp \<in> {StatusOK, StatusBadRequest, StatusUnauthorized, StatusNotFound,
                        StatusInternalServerError})
   \<and> (ServeHTTP env insecure r = Panics) =
       (\<exists>hook tmpl reply b a.
           AuthenticationHook env insecure (TLS r) = Inr hook
           \<and> HasPrefix (URLPath r) DBPrefix
           \<and> createArgsAndReply (TrimPrefix (URLPath r) DBPrefix) = Some (tmpl, reply)
           \<and> Body r = Inr b
           \<and> UnmarshalRequest env r b tmpl = Inr a
           \<and> verifyRequest a = Panics)"
proof -
  have "(AuthenticationHook env insecure (TLS r) = Inl eAuth
      \<longrightarrow> ServeHTTP env insecure r = Returns (httpError eAuth StatusUnauthorized, None))"
    by (simp add: ServeHTTP_def Let_def)
  moreover have "(AuthenticationHook env insecure (TLS r) = Inr hook
      \<and> \<not> HasPrefix (URLPath r) DBPrefix
      \<longrightarrow> ServeHTTP env insecure r = Returns (httpError ''Not Found'' StatusNotFound, None))"
    by (simp add: ServeHTTP_def Let_def)
  moreover have "(AuthenticationHook env insecure (TLS r) = Inr hook
      \<and> HasPrefix (URLPath r) DBPrefix
      \<and> createArgsAndReply (TrimPrefix (URLPath r) DBPrefix) = None
      \<longrightarrow> ServeHTTP env insecure r = Returns (httpError ''Not Found'' StatusNotFound, None))"
    by (simp add: ServeHTTP_def Let_def)
  moreover have "(AuthenticationHook env insecure (TLS r) = Inr hook
      \<and> HasPrefix (URLPath r) DBPrefix
      \<and> createArgsAndReply (TrimPrefix (URLPath r) DBPrefix) = Some (tmpl, reply)
      \<and> Body r = Inl eRead
      \<longrightarrow> ServeHTTP env insecure r = Returns (httpError eRead StatusInternalServerError, None))"
    by (simp add: ServeHTTP_def Let_def)
  moreover have "(AuthenticationHook env insecure (TLS r) = Inr hook
      \<and> HasPrefix (URLPath r) DBPrefix
      \<and> createArgsAndReply (TrimPrefix (URLPath r) DBPrefix) = Some (tmpl, reply)
      \<and> Body r = Inr b
      \<and> UnmarshalRequest env r b tmpl = Inl eUnm
      \<longrightarrow> ServeHTTP env insecure r = Returns (httpError eUnm StatusBadRequest, None))"
    by (simp add: ServeHTTP_def Let_def)
  moreover have "(AuthenticationHook env insecure (TLS r) = Inr hook
      \<and> HasPrefix (URLPath r) DBPrefix
      \<and> createArgsAndReply (TrimPrefix (URLPath r) DBPrefix) = Some (tmpl, reply)
      \<and> Body r = Inr b
      \<and> UnmarshalRequest env r b tmpl = Inr a
      \<and> verifyRequest a = Returns (Some eVer)
      \<longrightarrow> ServeHTTP env insecure r = Returns (httpError (verifyErrorString env eVer) StatusBadRequest, None))"
    by (simp add: ServeHTTP_def Let_def)
  moreover have "(AuthenticationHook env insecure (TLS r) = Inr hook
      \<and> HasPrefix (URLPath r) DBPrefix
      \<and> createArgsAndReply (TrimPrefix (URLPath r) DBPrefix) = Some (tmpl, reply)
      \<and> Body r = Inr b
      \<and> UnmarshalRequest env r b tmpl = Inr a
      \<and> verifyRequest a = Returns None
      \<and> hook a = Some eUser
      \<longrightarrow> ServeHTTP env insecure r = Returns (httpError eUser StatusUnauthorized, None))"
    by (simp add: ServeHTTP_def Let_def)
  moreover have "(AuthenticationHook env insecure (TLS r) = Inr hook
      \<and> HasPrefix (URLPath r) DBPrefix
      \<and> createArgsAndReply (TrimPrefix (URLPath r) DBPrefix) = Some (tmpl, reply)
      \<and> Body r = Inr b
      \<and> UnmarshalRequest env r b tmpl = Inr a
      \<and> verifyRequest a = Returns None
      \<and> hook a = None
      \<and> MarshalResponse env r (Send env a reply) = Inl eMar
      \<longrightarrow> ServeHTTP env insecure r = Returns (httpError eMar StatusInternalServerError, Some a))"
    by (simp add: ServeHTTP_def Let_def)
  moreover have "(AuthenticationHook env insecure (TLS r) = Inr hook
      \<and> HasPrefix (URLPath r) DBPrefix
      \<and> createArgsAndReply (TrimPrefix (URLPath r) DBPrefix) = Some (tmpl, reply)
      \<and> Body r = Inr b
      \<and> UnmarshalRequest env r b tmpl = Inr a
      \<and> verifyRequest a = Returns None
      \<and> hook a = None
      \<and> MarshalResponse env r (Send env a reply) = Inr (bd, ct)
      \<longrightarrow> ServeHTTP env insecure r = Returns (\<lparr>status = StatusOK, contentType = ct, body = bd\<rparr>, Some a))"
    by (simp add: ServeHTTP_def Let_def)
  ultimately show ?thesis
    using ServeHTTP_sent [of env insecure r resp sent]
      ServeHTTP_status_set [of env insecure r resp fwd] ServeHTTP_panics [of env insecure r]
    by blast
qed

lemmas example_simps =
  exampleEnv_def exampleRequest_def HasPrefix_def TrimPrefix_def DBPrefix_def
  createArgsAndReply_def allPublicMethods_def

theorem ServeHTTP_status_witness:
  "ServeHTTP exampleEnv False (exampleRequest ''/kv/db/Get'' ''root'' (Inr ''{}'') ''application/json'')
     = Returns (\<lparr>status = StatusOK, contentType = ''application/json'', body = ''{}''\<rparr>, Some GetRequest)
   \<and> ServeHTTP exampleEnv False (exampleRequest ''/kv/db/Get'' [] (Inr ''{}'') ''application/json'')
     = Returns (httpError ''no client certificate'' StatusUnauthorized, None)
   \<and> ServeHTTP exampleEnv False (exampleRequest ''/kv/Get'' ''root'' (Inr ''{}'') ''application/json'')
     = Returns (httpError ''Not Found'' StatusNotFound, None)
   \<and> ServeHTTP exampleEnv False
        (exampleRequest ''/kv/db/InternalPush'' ''root'' (Inr ''{}'') ''application/json'')
     = Returns (httpError ''Not Found'' StatusNotFound, None)
   \<and> ServeHTTP exampleEnv False
        (exampleRequest ''/kv/db/Get'' ''root'' (Inl ''connection reset'') ''application/json'')
     = Returns (httpError ''connection reset'' StatusInternalServerError, None)
   \<and> ServeHTTP exampleEnv False
        (exampleRequest ''/kv/db/Get'' ''root'' (Inr ''garbage'') ''application/json'')
     = Returns (httpError ''cannot unmarshal'' StatusBadRequest, None)
   \<and> ServeHTTP exampleEnv False
        (exampleRequest ''/kv/db/Batch'' ''root'' (Inr ''get+push'') ''application/json'')
     = Returns (httpError ''non-public request InternalPush'' StatusBadRequest, None)
   \<and> ServeHTTP exampleEnv False
        (exampleRequest ''/kv/db/Get'' ''alice'' (Inr ''{}'') ''application/json'')
     = Returns (httpError ''certificate user may not act for request user'' StatusUnauthorized, None)
   \<and> ServeHTTP exampleEnv False (exampleRequest ''/kv/db/Get'' ''root'' (Inr ''{}'') ''text/html'')
     = Returns (httpError ''unsupported encoding'' StatusInternalServerError, Some GetRequest)"
proof -
  let ?ok = "\<lambda>req::Request. None::string option"
  let ?no = "\<lambda>req::Request. Some ''certificate user may not act for request user''"
  have c1: "ServeHTTP exampleEnv False (exampleRequest ''/kv/db/Get'' ''root'' (Inr ''{}'') ''application/json'')
     = Returns (\<lparr>status = StatusOK, contentType = ''application/json'', body = ''{}''\<rparr>, Some GetRequest)"
    using ServeHTTP_status [where env = exampleEnv and insecure = False
        and r = "exampleRequest ''/kv/db/Get'' ''root'' (Inr ''{}'') ''application/json''"
        and hook = ?ok and tmpl = GetRequest and reply = GetResponse and b = "''{}''"
        and a = GetRequest and bd = "''{}''" and ct = "''application/json''"]
    by (simp add: example_simps)
  have c2: "ServeHTTP exampleEnv False (exampleRequest ''/kv/db/Get'' [] (Inr ''{}'') ''application/json'')
     = Returns (httpError ''no client certificate'' StatusUnauthorized, None)"
    using ServeHTTP_status [where env = exampleEnv and insecure = False
        and r = "exampleRequest ''/kv/db/Get'' [] (Inr ''{}'') ''application/json''"
        and eAuth = "''no client certificate''"]
    by (simp add: example_simps)
  have c3: "ServeHTTP exampleEnv False (exampleRequest ''/kv/Get'' ''root'' (Inr ''{}'') ''application/json'')
     = Returns (httpError ''Not Found'' StatusNotFound, None)"
    using ServeHTTP_status [where env = exampleEnv and insecure = False
        and r = "exampleRequest ''/kv/Get'' ''root'' (Inr ''{}'') ''application/json''"
        and hook = ?ok]
    by (simp add: example_simps)
  have c4: "ServeHTTP exampleEnv False
        (exampleRequest ''/kv/db/InternalPush'' ''root'' (Inr ''{}'') ''application/json'')
     = Returns (httpError ''Not Found'' StatusNotFound, None)"
    using ServeHTTP_status [where env = exampleEnv and insecure = False
        and r = "exampleRequest ''/kv/db/InternalPush'' ''root'' (Inr ''{}'') ''application/json''"
        and hook = ?ok]
    by (simp add: example_simps)
  have c5: "ServeHTTP exampleEnv False
        (exampleRequest ''/kv/db/Get'' ''root'' (Inl ''connection reset'') ''application/json'')
     = Returns (httpError ''connection reset'' StatusInternalServerError, None)"
    using ServeHTTP_status [where env = exampleEnv and insecure = False
        and r = "exampleRequest ''/kv/db/Get'' ''root'' (Inl ''connection reset'') ''application/json''"
        and hook = ?ok and tmpl = GetRequest and reply = GetResponse
        and eRead = "''connection reset''"]
    by (simp add: example_simps)
  have c6: "ServeHTTP exampleEnv False
        (exampleRequest ''/kv/db/Get'' ''root'' (Inr ''garbage'') ''application/json'')
     = Returns (httpError ''cannot unmarshal'' StatusBadRequest, None)"
    using ServeHTTP_status [where env = exampleEnv and insecure = False
        and r = "exampleRequest ''/kv/db/Get'' ''root'' (Inr ''garbage'') ''application/json''"
        and hook = ?ok and tmpl = GetRequest and reply = GetResponse and b = "''garbage''"
        and eUnm = "''cannot unmarshal''"]
    by (simp add: example_simps)
  have c7: "ServeHTTP exampleEnv False
        (exampleRequest ''/kv/db/Batch'' ''root'' (Inr ''get+push'') ''application/json'')
     = Returns (httpError ''non-public request InternalPush'' StatusBadRequest, None)"
    using ServeHTTP_status [where env = exampleEnv and insecure = False
        and r = "exampleRequest ''/kv/db/Batch'' ''root'' (Inr ''get+push'') ''application/json''"
        and hook = ?ok and tmpl = "BatchRequest []" and reply = BatchResponse
        and b = "''get+push''" and a = "BatchRequest [Some GetRequest, Some InternalPushRequest]"
        and eVer = "NonPublicRequestInBatch ''InternalPush''"]
    by (simp add: example_simps)
  have c8: "ServeHTTP exampleEnv False
        (exampleRequest ''/kv/db/Get'' ''alice'' (Inr ''{}'') ''application/json'')
     = Returns (httpError ''certificate user may not act for request user'' StatusUnauthorized, None)"
    using ServeHTTP_status [where env = exampleEnv and insecure = False
        and r = "exampleRequest ''/kv/db/Get'' ''alice'' (Inr ''{}'') ''application/json''"
        and hook = ?no and tmpl = GetRequest and reply = GetResponse and b = "''{}''"
        and a = GetRequest and eUser = "''certificate user may not act for request user''"]
    by (simp add: example_simps)
  have c9: "ServeHTTP exampleEnv False (exampleRequest ''/kv/db/Get'' ''root'' (Inr ''{}'') ''text/html'')
     = Returns (httpError ''unsupported encoding'' StatusInternalServerError, Some GetRequest)"
    using ServeHTTP_status [where env = exampleEnv and insecure = False
        and r = "exampleRequest ''/kv/db/Get'' ''root'' (Inr ''{}'') ''text/html''"
        and hook = ?ok and tmpl = GetRequest and reply = GetResponse and b = "''{}''"
        and a = GetRequest and eMar = "''unsupported encoding''"]
    by (simp add: example_simps)
  show ?thesis
    using c1 c2 c3 c4 c5 c6 c7 c8 c9 by simp
qed

section \<open>Requests the public API must not carry\<close>

lemma verifyRequest_loop_Returns_None:
  "(verifyRequest_loop us = Returns None) =
   (\<forall>u \<in> set us. \<exists>q. u = Some q \<and> allPublicMethods (Method_String (Request_Method q)) \<noteq> None)"
  by (induction us) (auto simp: Let_def split: option.splits)

lemma verifyRequest_loop_rejects:
  "us = map Some qs @ Some q # rest
   \<Longrightarrow> \<forall>p \<in> set qs. allPublicMethods (Method_String (Request_Method p)) \<noteq> None
   \<Longrightarrow> allPublicMethods (Method_String (Request_Method q)) = None
   \<Longrightarrow> verifyRequest_loop us
         = Returns (Some (NonPublicRequestInBatch (Method_String (Request_Method q))))"
  by (induction qs arbitrary: us) (auto simp: Let_def split: option.splits)

lemma verifyRequest_loop_panics:
  "us = map Some qs @ None # rest
   \<Longrightarrow> \<forall>p \<in> set qs. allPublicMethods (Method_String (Request_Method p)) \<noteq> None
   \<Longrightarrow> verifyRequest_loop us = Panics"
  by (induction qs arbitrary: us) (auto simp: Let_def split: option.splits)

text \<open>
  What \<open>verifyRequest\<close> does with a batch is decided by the first union that is empty or
  holds a request whose method is not public: it returns the error when that union
  holds a request, and \<open>ServeHTTP\<close> answers 400 without sending; an EndTransaction
  request with a commit trigger is rejected in the same way; and no request that
  \<open>verifyRequest\<close> does not pass is ever sent.
\<close>

lemma verifyRequest_rejects_up_to_empty_union:
  "(allPublicMethods (Method_String (Request_Method q)) = None
      \<and> (\<forall>p \<in> set qs. allPublicMethods (Method_String (Request_Method p)) \<noteq> None)
      \<longrightarrow> verifyRequest (BatchRequest (map Some qs @ Some q # rest))
            = Returns (Some (NonPublicRequestInBatch (Method_String (Request_Method q)))))
   \<and> verifyRequest (EndTransactionRequest (Some trigger))
       = Returns (Some (CommitTriggerInPublicRequest trigger))
   \<and> (AuthenticationHook env insecure (TLS r) = Inr hook
      \<and> HasPrefix (URLPath r) DBPrefix
      \<and> createArgsAndReply (TrimPrefix (URLPath r) DBPrefix) = Some (tmpl, reply)
      \<and> Body r = Inr b
      \<and> UnmarshalRequest env r b tmpl = Inr a
      \<and> verifyRequest a = Returns (Some eVer)
      \<longrightarrow> ServeHTTP env insecure r
            = Returns (httpError (verifyErrorString env eVer) StatusBadRequest, None))
   \<and> (ServeHTTP env insecure r = Returns (resp, Some sent)
      \<longrightarrow> verifyRequest sent = Returns None)"
proof -
  have "verifyRequest (BatchRequest (map Some qs @ Some q # rest))
            = Returns (Some (NonPublicRequestInBatch (Method_String (Request_Method q))))"
    if "allPublicMethods (Method_String (Request_Method q)) = None"
      "\<forall>p \<in> set qs. allPublicMethods (Method_String (Request_Method p)) \<noteq> None"
    using verifyRequest_loop_rejects [OF refl that(2) that(1)] by simp
  moreover have "verifyRequest sent = Returns None"
    if "ServeHTTP env insecure r = Returns (resp, Some sent)"
    using ServeHTTP_sent [OF that] by blast
  moreover have "ServeHTTP env insecure r
            = Returns (httpError (verifyErrorString env eVer) StatusBadRequest, None)"
    if "AuthenticationHook env insecure (TLS r) = Inr hook"
      "HasPrefix (URLPath r) DBPrefix"
      "createArgsAndReply (TrimPrefix (URLPath r) DBPrefix) = Some (tmpl, reply)"
      "Body r = Inr b" "UnmarshalRequest env r b tmpl = Inr a"
      "verifyRequest a = Returns (Some eVer)"
    using that by (simp add: ServeHTTP_def)
  ultimately show ?thesis
    by simp
qed

text \<open>
  C8, at a batch the public API can receive: an empty union followed by a union that
  holds an InternalPush request. The batch contains a request whose method is not
  public, and \<open>verifyRequest\<close> does not reject it: the type assertion on the empty
  union panics before the loop reaches the request, and \<open>ServeHTTP\<close> panics with it
  and answers no 400. The same batch without the empty union is rejected with 400.
\<close>

theorem verifyRequest_empty_union_panics:
  "Request_Method InternalPushRequest \<notin>
       {Get, Put, ConditionalPut, Increment, Delete, DeleteRange, Scan, ReverseScan,
        EndTransaction, Batch, AdminSplit, AdminMerge}
   \<and> verifyRequest (BatchRequest [None, Some InternalPushRequest]) = Panics
   \<and> ServeHTTP exampleEnv False
        (exampleRequest ''/kv/db/Batch'' ''root'' (Inr ''empty+push'') ''application/json'')
       = Panics
   \<and> verifyRequest (BatchRequest [Some GetRequest, Some InternalPushRequest])
       = Returns (Some (NonPublicRequestInBatch ''InternalPush''))
   \<and> ServeHTTP exampleEnv False
        (exampleRequest ''/kv/db/Batch'' ''root'' (Inr ''get+push'') ''application/json'')
       = Returns (httpError ''non-public request InternalPush'' StatusBadRequest, None)"
  by (simp add: ServeHTTP_def example_simps)


section \<open>Exit code of the command-line utility\<close>

text \<open>
  C7, as stated: the process exits with code 1 when \<open>zone get\<close> or \<open>zone set\<close> fails
  against the server. With a server that refuses the call both commands log the error
  and the process exits with code 0.
\<close>

theorem main_zone_get_counterexample:
  "main noOtherCommand downAdmin [''cockroach'', ''zone'', ''get'', ''db1'']
     = (ExitCode 0, [LogError ''connection refused''])
   \<and> main noOtherCommand downAdmin [''cockroach'', ''zone'', ''set'', ''db1'', ''zone.yaml'']
     = (ExitCode 0, [LogError ''connection refused''])"
  by (simp add: main_def Run_def runGetZone_def runSetZone_def downAdmin_def)

text \<open>
  C7, amended. The process exits with code 1 exactly when \<open>cli.Run\<close> returns an error
  and with code 0 otherwise. The zone subcommands get, ls, rm and set return no error:
  whatever they meet, the process exits with code 0 and writes nothing to standard
  error; a failure of \<open>zone get\<close> or \<open>zone set\<close> against the server is logged only.
\<close>

theorem main_exit_code:
  "osArgs \<noteq> [] \<Longrightarrow>
     fst (main other admin osArgs)
       = (if fst (Run other admin (tl (if length osArgs = 1 then osArgs @ [''help''] else osArgs))) = None
          then ExitCode 0 else ExitCode 1)
     \<and> (sub \<in> {''get'', ''ls'', ''rm'', ''set''} \<longrightarrow>
          main other admin (prog # ''zone'' # sub # args)
            = (ExitCode 0, snd (Run other admin (''zone'' # sub # args)))
          \<and> (\<forall>out \<in> set (snd (main other admin (prog # ''zone'' # sub # args))).
                 \<forall>f a. out \<noteq> Fprintf_Stderr f a))
     \<and> (admin_GetYAML admin k = Inl err \<longrightarrow>
          main other admin [prog, ''zone'', ''get'', k] = (ExitCode 0, [LogError err]))
     \<and> (ioutil_ReadFile admin path = Inr content \<and> admin_SetYAML admin k content = Some err \<longrightarrow>
          main other admin [prog, ''zone'', ''set'', k, path] = (ExitCode 0, [LogError err]))"
  by (auto simp: main_def Run_def Let_def runGetZone_def runSetZone_def runLsZones_def
      runRmZone_def split: prod.splits option.splits sum.splits if_splits)

theorem main_exit_code_witness:
  "fst (main noOtherCommand downAdmin [''cockroach'', ''kv'']) = ExitCode 1
   \<and> fst (main noOtherCommand downAdmin [''cockroach'', ''zone'']) = ExitCode 0
   \<and> main noOtherCommand downAdmin [''cockroach'', ''zone'', ''rm'', ''db1'']
       = (ExitCode 0, [LogError ''connection refused''])
   \<and> main noOtherCommand downAdmin [''cockroach'', ''zone'', ''get'', ''db2'']
       = (ExitCode 0, [LogError ''connection refused''])
   \<and> main noOtherCommand downAdmin [''cockroach'', ''zone'', ''set'', ''db2'', ''zone.yaml'']
       = (ExitCode 0, [LogError ''connection refused''])"
proof -
  have a: "fst (main noOtherCommand downAdmin [''cockroach'', ''kv'']) = ExitCode 1"
    using main_exit_code [where osArgs = "[''cockroach'', ''kv'']" and other = noOtherCommand
        and admin = downAdmin]
    by (simp add: Run_def noOtherCommand_def)
  have b: "fst (main noOtherCommand downAdmin [''cockroach'', ''zone'']) = ExitCode 0"
    using main_exit_code [where osArgs = "[''cockroach'', ''zone'']" and other = noOtherCommand
        and admin = downAdmin]
    by (simp add: Run_def)
  have c: "main noOtherCommand downAdmin [''cockroach'', ''zone'', ''rm'', ''db1'']
       = (ExitCode 0, [LogError ''connection refused''])"
    using main_exit_code [where osArgs = "[''cockroach'']" and sub = "''rm''"
        and other = noOtherCommand and admin = downAdmin and prog = "''cockroach''"
        and args = "[''db1'']"]
    by (simp add: Run_def runRmZone_def downAdmin_def)
  have d: "main noOtherCommand downAdmin [''cockroach'', ''zone'', ''get'', ''db2'']
       = (ExitCode 0, [LogError ''connection refused''])"
    using main_exit_code [where osArgs = "[''cockroach'']" and admin = downAdmin
        and other = noOtherCommand and k = "''db2''" and err = "''connection refused''"
        and prog = "''cockroach''"]
    by (simp add: downAdmin_def)
  have e: "main noOtherCommand downAdmin [''cockroach'', ''zone'', ''set'', ''db2'', ''zone.yaml'']
       = (ExitCode 0, [LogError ''connection refused''])"
    using main_exit_code [where osArgs = "[''cockroach'']" and admin = downAdmin
        and other = noOtherCommand and k = "''db2''" and err = "''connection refused''"
        and prog = "''cockroach''" and path = "''zone.yaml''" and content = "''replicas: []''"]
    by (simp add: downAdmin_def)
  show ?thesis
    using a b c d e by simp
qed


section \<open>Barriers of the command queue\<close>








section \<open>A write below an existing version is too old\<close>



lemma ts_less_le_trans: "ts_less a b \<Longrightarrow> ts_le b c \<Longrightarrow> ts_less a c"
  by (auto simp: ts_le_def ts_less_def)



text \<open>
  C3. A put at \<open>writeTs\<close> on a key that has a version at some \<open>ts' \<ge> writeTs\<close> fails
  with WriteTooOld; the error reports the timestamp of an existing version that is at
  least \<open>writeTs\<close>, the newest version's when the versions are newest-first; and the
  engine after the failed put is the engine before it.
\<close>

theorem MVCCPut_WriteTooOld:
  "(ts', x) \<in> set (versions (eng key)) \<and> ts_le writeTs ts' \<longrightarrow>
     (\<exists>existing. fst (MVCCPut eng key val writeTs txn) = Some (WriteTooOldError writeTs existing)
        \<and> existing \<in> fst ` set (versions (eng key))
        \<and> ts_le writeTs existing
        \<and> (newestFirst (versions (eng key)) \<longrightarrow> existing = fst (hd (versions (eng key)))))
     \<and> snd (MVCCPut eng key val writeTs txn) = eng"
proof
  assume a: "(ts', x) \<in> set (versions (eng key)) \<and> ts_le writeTs ts'"
  let ?vs = "versions (eng key)"
  have "find (\<lambda>tv. ts_le writeTs (fst tv)) ?vs \<noteq> None"
    using a by (auto simp: find_None_iff)
  then obtain tv where f: "find (\<lambda>tv. ts_le writeTs (fst tv)) ?vs = Some tv"
    by blast
  have r: "MVCCPut eng key val writeTs txn = (Some (WriteTooOldError writeTs (fst tv)), eng)"
    using f by (simp add: MVCCPut_def Let_def)
  have m: "tv \<in> set ?vs" "ts_le writeTs (fst tv)"
    using f by (auto simp: find_Some_iff)
  have h: "fst tv = fst (hd ?vs)" if nf: "newestFirst ?vs"
  proof (cases ?vs)
    case Nil
    then show ?thesis using m by simp
  next
    case (Cons v vs)
    show ?thesis
    proof (cases "tv = v")
      case True
      then show ?thesis using Cons by simp
    next
      case False
      then have "tv \<in> set vs" using m(1) Cons by simp
      then have "ts_less (fst tv) (fst v)"
        using nf Cons by (auto simp: newestFirst_def)
      then have "ts_le writeTs (fst v)"
        using m(2) by (auto simp: ts_le_def ts_less_def)
      then have "find (\<lambda>tv. ts_le writeTs (fst tv)) ?vs = Some v"
        using Cons by simp
      then show ?thesis using f False by simp
    qed
  qed
  show "(\<exists>existing. fst (MVCCPut eng key val writeTs txn) = Some (WriteTooOldError writeTs existing)
        \<and> existing \<in> fst ` set (versions (eng key))
        \<and> ts_le writeTs existing
        \<and> (newestFirst (versions (eng key)) \<longrightarrow> existing = fst (hd (versions (eng key)))))
     \<and> snd (MVCCPut eng key val writeTs txn) = eng"
    using r m h by auto
qed

section \<open>A read after a write returns the value written\<close>




lemma exampleEngine_versions:
  "versions (exampleEngine [0x61]) = [(\<lparr>WallTime = 10, Logical = 0\<rparr>, Some [0x31])]"
  by (simp add: exampleEngine_def MVCCPut_def emptyEngine_def)

theorem MVCCPut_WriteTooOld_witness:
  "MVCCPut exampleEngine [0x61] [0x32] \<lparr>WallTime = 5, Logical = 0\<rparr> None
     = (Some (WriteTooOldError \<lparr>WallTime = 5, Logical = 0\<rparr> \<lparr>WallTime = 10, Logical = 0\<rparr>),
        exampleEngine)
   \<and> MVCCPut exampleEngine [0x61] [0x32] \<lparr>WallTime = 10, Logical = 0\<rparr> None
     = (Some (WriteTooOldError \<lparr>WallTime = 10, Logical = 0\<rparr> \<lparr>WallTime = 10, Logical = 0\<rparr>),
        exampleEngine)"
proof -
  let ?old = "\<lparr>WallTime = 10, Logical = 0\<rparr>"
  have tooOld: "MVCCPut exampleEngine [0x61] [0x32] w None
           = (Some (WriteTooOldError w ?old), exampleEngine)"
    if "ts_le w ?old" for w
  proof -
    have "(?old, Some [0x31]) \<in> set (versions (exampleEngine [0x61])) \<and> ts_le w ?old"
      using that by (simp add: exampleEngine_versions)
    then have "fst (MVCCPut exampleEngine [0x61] [0x32] w None) = Some (WriteTooOldError w ?old)
        \<and> snd (MVCCPut exampleEngine [0x61] [0x32] w None) = exampleEngine"
      using MVCCPut_WriteTooOld [where eng = exampleEngine and key = "[0x61]" and ts' = ?old
          and x = "Some [0x31]" and writeTs = w and val = "[0x32]" and txn = None]
      by (auto simp: exampleEngine_versions)
    then show ?thesis
      by (simp add: prod_eq_iff)
  qed
  show ?thesis
    using tooOld [of "\<lparr>WallTime = 5, Logical = 0\<rparr>"] tooOld [of ?old]
    by (simp add: ts_le_def ts_less_def)
qed


end
